theory Spec2Isabelle
  imports Complex_Main "HOL-Library.Sublist" "HOL-Library.Char_ord" "HOL-Library.List_Lexorder"
begin

section \<open>Python values held by the provider's info mapping\<close>

text \<open>
  The info mapping of \<^verbatim>\<open>stock_analyzer_full.py\<close> is an untyped dictionary. A field is
  \<^verbatim>\<open>None\<close>, an \<^verbatim>\<open>int\<close> (unbounded; \<^verbatim>\<open>bool\<close> is one), a \<^verbatim>\<open>float\<close> or a string. A float is a
  finite value, an infinity or not-a-number; a finite float is kept as the real number it
  denotes. The scoring code tests these values for truth, compares them and hands them to
  an f-string; it does no other arithmetic on which a branch depends.
\<close>

datatype float_val = Finite real | PosInf | NegInf | NaN

datatype number = IntV int | FloatV float_val

datatype pyval = PNone | PNum number | PStr string

datatype error = TypeError | ValueError | OverflowError

type_synonym info_map = "(string \<times> pyval) list"

text \<open>\<^verbatim>\<open>info.get(key, None)\<close>: a missing key reads as \<^verbatim>\<open>None\<close>.\<close>

definition get :: "info_map \<Rightarrow> string \<Rightarrow> pyval" where
  "get info key = (case map_of info key of None \<Rightarrow> PNone | Some v \<Rightarrow> v)"

text \<open>
  The position of a number on the extended real line. Python compares an \<^verbatim>\<open>int\<close> with a
  \<^verbatim>\<open>float\<close> by their exact values, without converting the integer.
\<close>

fun value_of :: "number \<Rightarrow> float_val" where
  "value_of (IntV n) = Finite (of_int n)"
| "value_of (FloatV f) = f"

text \<open>Truth value of an object in a condition: zero and the empty string are false.\<close>

fun truthy :: "pyval \<Rightarrow> bool" where
  "truthy PNone = False"
| "truthy (PNum x) = (value_of x \<noteq> Finite 0)"
| "truthy (PStr s) = (s \<noteq> [])"

text \<open>Order on floats: every comparison with not-a-number is false.\<close>

fun float_lt :: "float_val \<Rightarrow> float_val \<Rightarrow> bool" where
  "float_lt NaN b = False"
| "float_lt a NaN = False"
| "float_lt (Finite a) (Finite b) = (a < b)"
| "float_lt a NegInf = False"
| "float_lt NegInf b = True"
| "float_lt PosInf b = False"
| "float_lt a PosInf = True"

definition float_le :: "float_val \<Rightarrow> float_val \<Rightarrow> bool" where
  "float_le a b \<longleftrightarrow> a \<noteq> NaN \<and> b \<noteq> NaN \<and> \<not> float_lt b a"

text \<open>
  The comparisons \<^verbatim>\<open>a < b\<close>, \<^verbatim>\<open>a > b\<close> and \<^verbatim>\<open>a <= b\<close>. Numbers compare with numbers
  and strings with strings; every other pairing raises \<^verbatim>\<open>TypeError\<close>.
\<close>

fun py_lt :: "pyval \<Rightarrow> pyval \<Rightarrow> error + bool" where
  "py_lt (PNum a) (PNum b) = Inr (float_lt (value_of a) (value_of b))"
| "py_lt (PStr a) (PStr b) = Inr (a < b)"
| "py_lt _ _ = Inl TypeError"

fun py_gt :: "pyval \<Rightarrow> pyval \<Rightarrow> error + bool" where
  "py_gt (PNum a) (PNum b) = Inr (float_lt (value_of b) (value_of a))"
| "py_gt (PStr a) (PStr b) = Inr (a > b)"
| "py_gt _ _ = Inl TypeError"

fun py_le :: "pyval \<Rightarrow> pyval \<Rightarrow> error + bool" where
  "py_le (PNum a) (PNum b) = Inr (float_le (value_of a) (value_of b))"
| "py_le (PStr a) (PStr b) = Inr (a \<le> b)"
| "py_le _ _ = Inl TypeError"

text \<open>
  \<^verbatim>\<open>x and c\<close> inside a condition: \<open>c\<close> is only evaluated (and can only raise) when
  \<open>x\<close> is true.
\<close>

fun and_then :: "bool \<Rightarrow> (error + bool) \<Rightarrow> error + bool" where
  "and_then False c = Inr False"
| "and_then True c = c"

text \<open>
  The float literals of the source, as the doubles they denote:
  \<^verbatim>\<open>0.05\<close>, \<^verbatim>\<open>0.07\<close> and \<^verbatim>\<open>0.40\<close>.
\<close>

definition lit_0_05 :: real where "lit_0_05 = 3602879701896397 / 2 ^ 56"
definition lit_0_07 :: real where "lit_0_07 = 1261007895663739 / 2 ^ 54"
definition lit_0_40 :: real where "lit_0_40 = 3602879701896397 / 2 ^ 53"

section \<open>Score details\<close>

text \<open>
  The three status strings of the source are the tiers \<open>Pass\<close> (the string with the check
  mark), \<open>Partial\<close> (the triangle) and \<open>Fail\<close> (the cross). The \<^verbatim>\<open>value\<close> string of a
  detail is kept symbolic: \<open>NA\<close> is the literal \<^verbatim>\<open>'N/A'\<close>, every other constructor names one
  f-string of the source and carries the field value \<open>v\<close> that the f-string renders.
\<close>

datatype status = Pass | Partial | Fail

datatype rendered =
    NA
  | Percent1 number      \<comment> \<open>\<^verbatim>\<open>f'{v*100:.1f}%'\<close>\<close>
  | Fixed2 number        \<comment> \<open>\<^verbatim>\<open>f'{v:.2f}'\<close>\<close>
  | Fixed2Arrow number number \<comment> \<open>\<^verbatim>\<open>f'{a:.2f} -> {b:.2f}'\<close>, with the arrow of the source\<close>
  | Billions1 number     \<comment> \<open>\<^verbatim>\<open>f'{v/1e9:.1f}B'\<close>\<close>
  | DE1 number           \<comment> \<open>\<^verbatim>\<open>f'D/E: {v:.1f}'\<close>\<close>
  | Yen2 number          \<comment> \<open>\<^verbatim>\<open>f'{v:.2f}'\<close> followed by the yen sign\<close>

record score_detail =
  score :: int
  status :: status
  value_str :: rendered

text \<open>
  The format code \<^verbatim>\<open>f\<close> and the division by \<^verbatim>\<open>1e9\<close> convert an \<^verbatim>\<open>int\<close> to a \<^verbatim>\<open>float\<close>.
  The conversion raises \<^verbatim>\<open>OverflowError\<close> when the integer rounds to a value beyond the
  largest double, that is from \<open>2 ^ 1024 - 2 ^ 970\<close> on in absolute value.
\<close>

definition float_overflows :: "int \<Rightarrow> bool" where
  "float_overflows n \<longleftrightarrow> 2 ^ 1024 - 2 ^ 970 \<le> \<bar>n\<bar>"

text \<open>
  \<^verbatim>\<open>f'{v*k:.1f}'\<close> and \<^verbatim>\<open>f'{v:.2f}'\<close> (\<open>k = 1\<close>) on a field value. An integer is
  multiplied exactly and then converted; a float is formatted whatever its value; a string
  (times an integer, still a string) is rejected by the format code with \<^verbatim>\<open>ValueError\<close>;
  \<^verbatim>\<open>None\<close> supports neither the product nor the format.
\<close>

fun formatted :: "int \<Rightarrow> pyval \<Rightarrow> error + number" where
  "formatted k (PNum (IntV n)) = (if float_overflows (n * k) then Inl OverflowError else Inr (IntV n))"
| "formatted k (PNum (FloatV f)) = Inr (FloatV f)"
| "formatted k (PStr s) = Inl ValueError"
| "formatted k PNone = Inl TypeError"

definition fmt_percent1 :: "pyval \<Rightarrow> error + rendered" where
  "fmt_percent1 v = map_sum id Percent1 (formatted 100 v)"

definition fmt_fixed2 :: "pyval \<Rightarrow> error + rendered" where
  "fmt_fixed2 v = map_sum id Fixed2 (formatted 1 v)"

text \<open>The two replacement fields of the f-string are evaluated from left to right.\<close>

definition fmt_fixed2_arrow :: "pyval \<Rightarrow> pyval \<Rightarrow> error + rendered" where
  "fmt_fixed2_arrow a b =
     (case formatted 1 a of Inl e \<Rightarrow> Inl e
      | Inr x \<Rightarrow> (case formatted 1 b of Inl e \<Rightarrow> Inl e | Inr y \<Rightarrow> Inr (Fixed2Arrow x y)))"

text \<open>
  \<^verbatim>\<open>f'{v/1e9:.1f}B'\<close>: the division converts an integer first, and raises \<^verbatim>\<open>TypeError\<close>
  on a string or \<^verbatim>\<open>None\<close>.
\<close>

fun fmt_billions1 :: "pyval \<Rightarrow> error + rendered" where
  "fmt_billions1 (PNum (IntV n)) =
     (if float_overflows n then Inl OverflowError else Inr (Billions1 (IntV n)))"
| "fmt_billions1 (PNum (FloatV f)) = Inr (Billions1 (FloatV f))"
| "fmt_billions1 _ = Inl TypeError"

definition fmt_de1 :: "pyval \<Rightarrow> error + rendered" where
  "fmt_de1 v = map_sum id DE1 (formatted 1 v)"

definition fmt_yen2 :: "pyval \<Rightarrow> error + rendered" where
  "fmt_yen2 v = map_sum id Yen2 (formatted 1 v)"

definition detail :: "int \<Rightarrow> status \<Rightarrow> (error + rendered) \<Rightarrow> error + score_detail" where
  "detail pts st v = map_sum id (\<lambda>s. \<lparr>score = pts, status = st, value_str = s\<rparr>) v"

section \<open>The nine criteria of \<^verbatim>\<open>calculate_comprehensive_score\<close>\<close>

text \<open>
  Each criterion follows its \<^verbatim>\<open>if\<close>/\<^verbatim>\<open>elif\<close>/\<^verbatim>\<open>else\<close> chain of the source: a condition
  that raises ends the criterion with that error, a true condition selects the branch,
  a false one moves to the next. The literals \<^verbatim>\<open>0\<close> and \<^verbatim>\<open>100\<close> are integers.
\<close>

definition branch ::
  "(error + bool) \<Rightarrow> (error + score_detail) \<Rightarrow> (error + score_detail) \<Rightarrow> error + score_detail" where
  "branch c yes no = (case c of Inl e \<Rightarrow> Inl e | Inr b \<Rightarrow> (if b then yes else no))"

definition revenue_criterion :: "pyval \<Rightarrow> error + score_detail" where
  "revenue_criterion revenue_growth =
     branch (and_then (truthy revenue_growth)
               (py_gt revenue_growth (PNum (FloatV (Finite lit_0_05)))))
       (detail 15 Pass (fmt_percent1 revenue_growth))
       (branch (and_then (truthy revenue_growth) (py_gt revenue_growth (PNum (IntV 0))))
          (detail 8 Partial (fmt_percent1 revenue_growth))
          (detail 0 Fail (Inr NA)))"

definition eps_criterion :: "pyval \<Rightarrow> pyval \<Rightarrow> error + score_detail" where
  "eps_criterion eps eps_forward =
     branch (and_then (truthy eps) (and_then (truthy eps_forward) (py_gt eps_forward eps)))
       (detail 15 Pass (fmt_fixed2_arrow eps eps_forward))
       (branch (and_then (truthy eps) (py_gt eps (PNum (IntV 0))))
          (detail 8 Partial (fmt_fixed2 eps))
          (detail 0 Fail (Inr NA)))"

text \<open>Total assets, operating cash flow and total cash share one shape.\<close>

definition positive_billions_criterion :: "pyval \<Rightarrow> error + score_detail" where
  "positive_billions_criterion x =
     branch (and_then (truthy x) (py_gt x (PNum (IntV 0))))
       (detail 10 Pass (fmt_billions1 x))
       (detail 0 Fail (Inr NA))"

definition roe_criterion :: "pyval \<Rightarrow> error + score_detail" where
  "roe_criterion roe =
     branch (and_then (truthy roe) (py_gt roe (PNum (FloatV (Finite lit_0_07)))))
       (detail 10 Pass (fmt_percent1 roe))
       (branch (and_then (truthy roe) (py_gt roe (PNum (IntV 0))))
          (detail 5 Partial (fmt_percent1 roe))
          (detail 0 Fail (Inr NA)))"

text \<open>The debt-to-equity test is \<^verbatim>\<open>is not None\<close>, not truth.\<close>

definition equity_ratio_criterion :: "pyval \<Rightarrow> error + score_detail" where
  "equity_ratio_criterion debt_to_equity =
     branch (and_then (debt_to_equity \<noteq> PNone) (py_lt debt_to_equity (PNum (IntV 100))))
       (detail 10 Pass (fmt_de1 debt_to_equity))
       (branch (Inr (debt_to_equity \<noteq> PNone))
          (detail 5 Partial (fmt_de1 debt_to_equity))
          (detail 0 Fail (Inr NA)))"

definition dividend_criterion :: "pyval \<Rightarrow> error + score_detail" where
  "dividend_criterion dividend =
     branch (and_then (truthy dividend) (py_gt dividend (PNum (IntV 0))))
       (detail 10 Pass (fmt_yen2 dividend))
       (detail 0 Fail (Inr NA))"

definition payout_ratio_criterion :: "pyval \<Rightarrow> error + score_detail" where
  "payout_ratio_criterion payout_ratio =
     branch (and_then (truthy payout_ratio)
               (py_le payout_ratio (PNum (FloatV (Finite lit_0_40)))))
       (detail 10 Pass (fmt_percent1 payout_ratio))
       (branch (Inr (truthy payout_ratio))
          (detail 5 Partial (fmt_percent1 payout_ratio))
          (detail 0 Fail (Inr NA)))"

section \<open>The comprehensive score\<close>

text \<open>
  The result dictionary holds either the single \<^verbatim>\<open>'note'\<close> string or the nine details,
  in insertion order. The statements of the function run in sequence, so the first
  criterion that raises decides the outcome.
\<close>

datatype entry_value = Note string | Criterion score_detail

definition note_text :: string where
  "note_text =
     [CHR 0xE4, CHR 0xBC, CHR 0x81, CHR 0xE6, CHR 0xA5, CHR 0xAD, CHR 0xE6, CHR 0x83, CHR 0x85,
      CHR 0xE5, CHR 0xA0, CHR 0xB1, CHR 0xE3, CHR 0x81, CHR 0x8C, CHR 0xE5, CHR 0x8F, CHR 0x96,
      CHR 0xE5, CHR 0xBE, CHR 0x97, CHR 0xE3, CHR 0x81, CHR 0xA7, CHR 0xE3, CHR 0x81, CHR 0x8D,
      CHR 0xE3, CHR 0x81, CHR 0xAA, CHR 0xE3, CHR 0x81, CHR 0x84, CHR 0xE3, CHR 0x81, CHR 0x9F,
      CHR 0xE3, CHR 0x82, CHR 0x81, CHR 0xE3, CHR 0x80, CHR 0x81, CHR 0xE6, CHR 0xA8, CHR 0x99,
      CHR 0xE6, CHR 0xBA, CHR 0x96, CHR 0xE3, CHR 0x82, CHR 0xB9, CHR 0xE3, CHR 0x82, CHR 0xB3,
      CHR 0xE3, CHR 0x82, CHR 0xA2, CHR 0xE3, CHR 0x82, CHR 0x92, CHR 0xE8, CHR 0xA1, CHR 0xA8,
      CHR 0xE7, CHR 0xA4, CHR 0xBA]"

type_synonym score_details = "(string \<times> entry_value) list"

text \<open>The bundle returned by a successful fetch; \<open>history\<close> is the table of price rows.\<close>

record fetched =
  company_name :: pyval
  info :: info_map
  history :: "real list"

fun collect :: "(string \<times> (error + score_detail)) list \<Rightarrow> error + (string \<times> score_detail) list" where
  "collect [] = Inr []"
| "collect ((k, r) # rest) =
     (case r of Inl e \<Rightarrow> Inl e
      | Inr d \<Rightarrow> (case collect rest of Inl e \<Rightarrow> Inl e | Inr ds \<Rightarrow> Inr ((k, d) # ds)))"

definition criteria :: "info_map \<Rightarrow> (string \<times> (error + score_detail)) list" where
  "criteria i =
     [(''revenue'', revenue_criterion (get i ''revenueGrowth'')),
      (''eps'', eps_criterion (get i ''trailingEps'') (get i ''forwardEps'')),
      (''assets'', positive_billions_criterion (get i ''totalAssets'')),
      (''operating_cf'', positive_billions_criterion (get i ''operatingCashflow'')),
      (''cash'', positive_billions_criterion (get i ''totalCash'')),
      (''roe'', roe_criterion (get i ''returnOnEquity'')),
      (''equity_ratio'', equity_ratio_criterion (get i ''debtToEquity'')),
      (''dividend'', dividend_criterion (get i ''dividendRate'')),
      (''payout_ratio'', payout_ratio_criterion (get i ''payoutRatio''))]"

definition calculate_comprehensive_score :: "fetched option \<Rightarrow> error + (int \<times> score_details)" where
  "calculate_comprehensive_score data =
     (case data of
        None \<Rightarrow> Inr (50, [(''note'', Note note_text)])
      | Some d \<Rightarrow>
          if info d = [] then Inr (50, [(''note'', Note note_text)])
          else (case collect (criteria (info d)) of
                  Inl e \<Rightarrow> Inl e
                | Inr ds \<Rightarrow> Inr (sum_list (map (\<lambda>(k, sd). score sd) ds),
                               map (\<lambda>(k, sd). (k, Criterion sd)) ds)))"

section \<open>The fetcher\<close>

text \<open>
  The market-data provider is outside the program. Its behaviour during one fetch is a
  script: for each attempt index, what \<^verbatim>\<open>stock.history(period="max")\<close> does and what
  \<^verbatim>\<open>stock.info\<close> does, each either raising an exception with a message or returning.
  The fetch returns \<^verbatim>\<open>None\<close> or the bundle, and leaves a trace of what it did: sleeps,
  provider queries and the messages shown to the user. The exception that reaches the
  outer handler is the one of the history query: the ticker object is created without a
  request, and whatever the info lookup raises is caught by the inner handler, which
  substitutes an empty mapping and the fallback name.
\<close>

datatype 'a reply = Raises string | Returns 'a

record attempt_script =
  history_reply :: "real list reply"
  info_reply :: "info_map reply"

type_synonym provider = "nat \<Rightarrow> attempt_script"

datatype message =
    NotFound string          \<comment> \<open>\<^verbatim>\<open>st.error\<close>: no data for this stock code\<close>
  | RateLimitWait nat nat nat \<comment> \<open>\<^verbatim>\<open>st.warning\<close>: wait time, attempt + 1, max_retries\<close>
  | RateLimitReached         \<comment> \<open>\<^verbatim>\<open>st.error\<close>: rate limit reached, try again later\<close>

datatype event =
    Sleep nat
  | QueryHistory string
  | QueryInfo string
  | StError message
  | StWarning message

definition max_retries :: nat where "max_retries = 3"
definition retry_delay :: nat where "retry_delay = 2"

text \<open>\<^verbatim>\<open>needle in text\<close> on strings.\<close>

fun str_in :: "string \<Rightarrow> string \<Rightarrow> bool" where
  "str_in needle [] = (needle = [])"
| "str_in needle (c # cs) = (prefix needle (c # cs) \<or> str_in needle cs)"

definition rate_limited :: "string \<Rightarrow> bool" where
  "rate_limited error_msg \<longleftrightarrow>
     str_in ''Too Many Requests'' error_msg \<or> str_in ''Rate limit'' error_msg"

text \<open>The fallback company name: two fixed characters (six bytes) and the stock code.\<close>

definition default_name :: "string \<Rightarrow> string" where
  "default_name stock_code =
     [CHR 0xE9, CHR 0x8A, CHR 0x98, CHR 0xE6, CHR 0x9F, CHR 0x84] @ stock_code"

definition name_of :: "info_map \<Rightarrow> string \<Rightarrow> pyval" where
  "name_of i stock_code =
     (case map_of i ''longName'' of
        Some v \<Rightarrow> v
      | None \<Rightarrow> (case map_of i ''shortName'' of
                   Some v \<Rightarrow> v
                 | None \<Rightarrow> PStr (default_name stock_code)))"

text \<open>
  The loop \<^verbatim>\<open>for attempt in range(max_retries)\<close>, by recursion on the attempt indices
  still to run. \<^verbatim>\<open>continue\<close> is the recursive call; running out of indices is the
  \<^verbatim>\<open>return None\<close> after the loop.
\<close>

fun fetch_attempts :: "provider \<Rightarrow> string \<Rightarrow> nat list \<Rightarrow> fetched option \<times> event list" where
  "fetch_attempts p stock_code [] = (None, [])"
| "fetch_attempts p stock_code (attempt # rest) =
     (let ticker = stock_code @ ''.T'' in
      case history_reply (p attempt) of
        Returns hist \<Rightarrow>
          if hist = [] then
            (None, [Sleep 1, QueryHistory ticker, StError (NotFound stock_code)])
          else
            (case info_reply (p attempt) of
               Returns i \<Rightarrow>
                 (Some \<lparr>company_name = name_of i stock_code, info = i, history = hist\<rparr>,
                  [Sleep 1, QueryHistory ticker, Sleep 1, QueryInfo ticker])
             | Raises m \<Rightarrow>
                 (Some \<lparr>company_name = PStr (default_name stock_code), info = [], history = hist\<rparr>,
                  [Sleep 1, QueryHistory ticker, Sleep 1, QueryInfo ticker]))
      | Raises error_msg \<Rightarrow>
          if rate_limited error_msg then
            if attempt < max_retries - 1 then
              (let wait_time = retry_delay * (attempt + 1);
                   (result, evs) = fetch_attempts p stock_code rest
               in (result,
                   [Sleep 1, QueryHistory ticker,
                    StWarning (RateLimitWait wait_time (attempt + 1) max_retries),
                    Sleep wait_time] @ evs))
            else (None, [Sleep 1, QueryHistory ticker, StError RateLimitReached])
          else
            if attempt < max_retries - 1 then
              (let (result, evs) = fetch_attempts p stock_code rest
               in (result, [Sleep 1, QueryHistory ticker, Sleep retry_delay] @ evs))
            else (None, [Sleep 1, QueryHistory ticker]))"

definition fetch_stock_data :: "provider \<Rightarrow> string \<Rightarrow> fetched option \<times> event list" where
  "fetch_stock_data p stock_code = fetch_attempts p stock_code [0..<max_retries]"

text \<open>What a trace says: the attempts made (one history query each) and the sleeps.\<close>

fun is_history_query :: "event \<Rightarrow> bool" where
  "is_history_query (QueryHistory t) = True"
| "is_history_query _ = False"

definition attempts_made :: "event list \<Rightarrow> nat" where
  "attempts_made evs = length (filter is_history_query evs)"

section \<open>History store and monthly ranking\<close>

text \<open>
  One history entry. The dictionary keys \<^verbatim>\<open>company_name\<close>, \<^verbatim>\<open>score\<close> and
  \<^verbatim>\<open>score_details\<close> carry the prefix \<open>entry_\<close> here, as the first two already name fields
  of the records above.
\<close>

record entry =
  stock_code :: string
  entry_company_name :: pyval
  entry_score :: int
  entry_score_details :: score_details
  date :: string

text \<open>
  The two JSON files. \<open>None\<close> is a file that does not exist; otherwise the file holds
  the value that \<^verbatim>\<open>json.dump\<close> wrote, which \<^verbatim>\<open>json.load\<close> reads back.
\<close>

record files =
  history_file :: "entry list option"
  ranking_file :: "(string \<rightharpoonup> entry list) option"

definition no_files :: files where
  "no_files = \<lparr>history_file = None, ranking_file = None\<rparr>"

definition load_history :: "files \<Rightarrow> entry list" where
  "load_history fs = (case history_file fs of Some h \<Rightarrow> h | None \<Rightarrow> [])"

text \<open>The slice \<^verbatim>\<open>xs[-100:]\<close>: the last 100 elements, or all of a shorter list.\<close>

definition last_100 :: "'a list \<Rightarrow> 'a list" where
  "last_100 xs = drop (length xs - 100) xs"

definition load_rankings :: "files \<Rightarrow> string \<rightharpoonup> entry list" where
  "load_rankings fs = (case ranking_file fs of Some r \<Rightarrow> r | None \<Rightarrow> Map.empty)"

text \<open>
  \<^verbatim>\<open>rankings[month]\<close> once the key is known to be there; the update below reads it only
  after it has put the key in.
\<close>

definition bucket :: "(string \<rightharpoonup> entry list) \<Rightarrow> string \<Rightarrow> entry list" where
  "bucket rankings month = (case rankings month of Some b \<Rightarrow> b | None \<Rightarrow> [])"

text \<open>
  \<^verbatim>\<open>list.sort(key=lambda x: x['score'], reverse=True)\<close>: the library's sort is stable, and
  stays so under \<^verbatim>\<open>reverse=True\<close>. \<open>current_month\<close> is the clock read by the function.
\<close>

definition sort_by_score_desc :: "entry list \<Rightarrow> entry list" where
  "sort_by_score_desc es = sort_key (\<lambda>x. - entry_score x) es"

definition update_monthly_ranking :: "string \<Rightarrow> entry \<Rightarrow> files \<Rightarrow> files" where
  "update_monthly_ranking current_month e fs =
     (let rankings = load_rankings fs;
          rankings1 = (if current_month \<notin> dom rankings then rankings(current_month \<mapsto> [])
                       else rankings);
          kept = filter (\<lambda>r. stock_code r \<noteq> stock_code e) (bucket rankings1 current_month);
          sorted_bucket = sort_by_score_desc (kept @ [e])
      in fs\<lparr>ranking_file := Some (rankings1(current_month \<mapsto> sorted_bucket))\<rparr>)"

text \<open>
  \<^verbatim>\<open>save_history\<close> reads the clock for the entry's date; \<^verbatim>\<open>update_monthly_ranking\<close>
  reads it again for the month. Both readings are arguments here.
\<close>

definition save_history ::
  "string \<Rightarrow> string \<Rightarrow> string \<Rightarrow> pyval \<Rightarrow> int \<Rightarrow> score_details \<Rightarrow> files \<Rightarrow> files" where
  "save_history now current_month code name sc details fs =
     (let history = load_history fs;
          e = \<lparr>stock_code = code, entry_company_name = name, entry_score = sc,
               entry_score_details = details, date = now\<rparr>;
          history1 = last_100 (history @ [e])
      in update_monthly_ranking current_month e (fs\<lparr>history_file := Some history1\<rparr>))"

definition load_monthly_ranking :: "string \<Rightarrow> files \<Rightarrow> entry list" where
  "load_monthly_ranking current_month fs =
     (case ranking_file fs of
        Some rankings \<Rightarrow> (case rankings current_month of Some b \<Rightarrow> b | None \<Rightarrow> [])
      | None \<Rightarrow> [])"

text \<open>
  A run of the application saves one entry per completed analysis. \<open>save_at\<close> is
  \<^verbatim>\<open>save_history\<close> on an entry that already carries its date, with the month read by the
  ranking update beside it; \<open>save_all\<close> is a sequence of such calls.
\<close>

definition save_at :: "string \<times> entry \<Rightarrow> files \<Rightarrow> files" where
  "save_at me fs =
     save_history (date (snd me)) (fst me) (stock_code (snd me)) (entry_company_name (snd me))
       (entry_score (snd me)) (entry_score_details (snd me)) fs"

definition save_all :: "(string \<times> entry) list \<Rightarrow> files \<Rightarrow> files" where
  "save_all mes fs = fold save_at mes fs"

section \<open>Vocabulary of the properties\<close>

text \<open>
  The function reads ten fields of the info mapping. A field value fits when it is
  \<^verbatim>\<open>None\<close>, a float, or an integer that the f-string of its criterion can convert to a
  float; \<open>k\<close> is the factor the f-string applies first (100 for the three percentages). A
  mapping is well typed when its ten read fields fit; its other keys are not looked at.
\<close>

fun fits :: "int \<Rightarrow> pyval \<Rightarrow> bool" where
  "fits k (PStr s) = False"
| "fits k (PNum (IntV n)) = (\<not> float_overflows (n * k))"
| "fits k v = True"

definition read_fields :: "(string \<times> int) list" where
  "read_fields =
     [(''revenueGrowth'', 100), (''trailingEps'', 1), (''forwardEps'', 1), (''totalAssets'', 1),
      (''operatingCashflow'', 1), (''totalCash'', 1), (''returnOnEquity'', 100),
      (''debtToEquity'', 1), (''dividendRate'', 1), (''payoutRatio'', 100)]"

definition well_typed :: "info_map \<Rightarrow> bool" where
  "well_typed i = list_all (\<lambda>(f, k). fits k (get i f)) read_fields"

text \<open>
  The weights are the point budgets of the nine criteria, in the order the function fills
  the dictionary. \<open>points\<close> reads \<^verbatim>\<open>item['score']\<close> off a breakdown entry, and
  \<open>criterion_of\<close> looks a criterion up in a returned breakdown.
\<close>

definition criterion_weights :: "(string \<times> int) list" where
  "criterion_weights =
     [(''revenue'', 15), (''eps'', 15), (''assets'', 10), (''operating_cf'', 10), (''cash'', 10),
      (''roe'', 10), (''equity_ratio'', 10), (''dividend'', 10), (''payout_ratio'', 10)]"

fun within_weight :: "string \<times> entry_value \<Rightarrow> string \<times> int \<Rightarrow> bool" where
  "within_weight (k, Criterion sd) (k', w) = (k = k' \<and> 0 \<le> score sd \<and> score sd \<le> w)"
| "within_weight (k, Note s) (k', w) = False"

fun points :: "string \<times> entry_value \<Rightarrow> int" where
  "points (k, Criterion sd) = score sd"
| "points (k, Note s) = 0"






text \<open>Concrete bundles: the specification's full-marks scenario first.\<close>

definition sample_data :: fetched where
  "sample_data =
     \<lparr>company_name = PStr ''Sample'',
      info = [(''longName'', PStr ''Sample''),
              (''revenueGrowth'', PNum (FloatV (Finite (1 / 10)))),
              (''trailingEps'', PNum (FloatV (Finite 2))),
              (''forwardEps'', PNum (FloatV (Finite (5 / 2)))),
              (''totalAssets'', PNum (IntV 5000000000)),
              (''operatingCashflow'', PNum (IntV 1000000000)),
              (''totalCash'', PNum (IntV 2000000000)),
              (''returnOnEquity'', PNum (FloatV (Finite (9 / 100)))),
              (''debtToEquity'', PNum (IntV 80)),
              (''dividendRate'', PNum (IntV 30)),
              (''payoutRatio'', PNum (FloatV (Finite (35 / 100))))],
      history = [1]\<rparr>"

definition with_info :: "info_map \<Rightarrow> fetched" where
  "with_info i = \<lparr>company_name = PStr ''Sample'', info = i, history = [1]\<rparr>"





definition huge_dividend_data :: fetched where
  "huge_dividend_data = with_info [(''dividendRate'', PNum (IntV (10 ^ 309)))]"






text \<open>
  Provider scripts: one that raises the same connection error on every attempt, and one
  that knows no price history for the ticker.
\<close>

definition failing_provider :: provider where
  "failing_provider attempt =
     \<lparr>history_reply = Raises ''Connection reset'', info_reply = Raises ''Connection reset''\<rparr>"

definition unknown_ticker_provider :: provider where
  "unknown_ticker_provider attempt = \<lparr>history_reply = Returns [], info_reply = Returns []\<rparr>"

text \<open>
  Entries for concrete runs of the stores: \<open>mk_entry\<close> fills the fields a claim does not
  look at, and \<open>numbered n\<close> is the \<open>n\<close>-th of a sequence of analyses saved in one month,
  with the three-digit code of \<open>n\<close> as its ticker.
\<close>

definition mk_entry :: "string \<Rightarrow> int \<Rightarrow> entry" where
  "mk_entry code sc =
     \<lparr>stock_code = code, entry_company_name = PStr ''Sample'', entry_score = sc,
      entry_score_details = [], date = ''2025-01-15 10:00:00''\<rparr>"

definition digit :: "nat \<Rightarrow> char" where
  "digit n = ''0123456789'' ! (n mod 10)"

definition numbered :: "nat \<Rightarrow> string \<times> entry" where
  "numbered n =
     (''2025-01'', mk_entry [digit (n div 100), digit (n div 10), digit n] (int (n mod 101)))"

definition hundred_and_five :: "(string \<times> entry) list" where
  "hundred_and_five = map numbered [0..<105]"

definition december_files :: files where
  "december_files =
     \<lparr>history_file = Some [mk_entry ''6758'' 55],
      ranking_file = Some [''2024-12'' \<mapsto> [mk_entry ''6758'' 55]]\<rparr>"

section \<open>Properties of the scoring engine\<close>

lemma and_then_if: "and_then b c = (if b then c else Inr False)"
  by (cases b) simp_all

lemma pyval_cases:
  obtains "v = PNone" | n where "v = PNum (IntV n)" | r where "v = PNum (FloatV (Finite r))"
  | "v = PNum (FloatV PosInf)" | "v = PNum (FloatV NegInf)" | "v = PNum (FloatV NaN)"
  | s where "v = PStr s"
proof (cases v)
  case PNone
  then show ?thesis using that by blast
next
  case (PNum x)
  show ?thesis
  proof (cases x)
    case (IntV n)
    with PNum show ?thesis using that by blast
  next
    case (FloatV f)
    with PNum show ?thesis using that by (cases f) blast+
  qed
next
  case (PStr s)
  then show ?thesis using that by blast
qed

lemmas criterion_defs =
  revenue_criterion_def eps_criterion_def positive_billions_criterion_def roe_criterion_def
  equity_ratio_criterion_def dividend_criterion_def payout_ratio_criterion_def
  branch_def detail_def fmt_percent1_def fmt_fixed2_def fmt_fixed2_arrow_def fmt_de1_def
  fmt_yen2_def

lemma revenue_bound:
  "fits 100 x \<Longrightarrow> \<not> isl (revenue_criterion x) \<and>
     0 \<le> score (projr (revenue_criterion x)) \<and> score (projr (revenue_criterion x)) \<le> 15"
  by (cases x rule: pyval_cases)
    (auto simp: and_then_if revenue_criterion_def branch_def detail_def fmt_percent1_def)

lemma eps_bound:
  "fits 1 x \<Longrightarrow> fits 1 y \<Longrightarrow> \<not> isl (eps_criterion x y) \<and>
     0 \<le> score (projr (eps_criterion x y)) \<and> score (projr (eps_criterion x y)) \<le> 15"
  by (cases x rule: pyval_cases; cases y rule: pyval_cases)
    (auto simp: and_then_if eps_criterion_def branch_def detail_def fmt_fixed2_def
      fmt_fixed2_arrow_def)

lemma positive_billions_bound:
  "fits 1 x \<Longrightarrow> \<not> isl (positive_billions_criterion x) \<and>
     0 \<le> score (projr (positive_billions_criterion x)) \<and>
     score (projr (positive_billions_criterion x)) \<le> 10"
  by (cases x rule: pyval_cases)
    (auto simp: and_then_if positive_billions_criterion_def branch_def detail_def)

lemma roe_bound:
  "fits 100 x \<Longrightarrow> \<not> isl (roe_criterion x) \<and>
     0 \<le> score (projr (roe_criterion x)) \<and> score (projr (roe_criterion x)) \<le> 10"
  by (cases x rule: pyval_cases)
    (auto simp: and_then_if roe_criterion_def branch_def detail_def fmt_percent1_def)

lemma equity_ratio_bound:
  "fits 1 x \<Longrightarrow> \<not> isl (equity_ratio_criterion x) \<and>
     0 \<le> score (projr (equity_ratio_criterion x)) \<and>
     score (projr (equity_ratio_criterion x)) \<le> 10"
  by (cases x rule: pyval_cases)
    (auto simp: and_then_if equity_ratio_criterion_def branch_def detail_def fmt_de1_def)

lemma dividend_bound:
  "fits 1 x \<Longrightarrow> \<not> isl (dividend_criterion x) \<and>
     0 \<le> score (projr (dividend_criterion x)) \<and> score (projr (dividend_criterion x)) \<le> 10"
  by (cases x rule: pyval_cases)
    (auto simp: and_then_if dividend_criterion_def branch_def detail_def fmt_yen2_def)

lemma payout_ratio_bound:
  "fits 100 x \<Longrightarrow> \<not> isl (payout_ratio_criterion x) \<and>
     0 \<le> score (projr (payout_ratio_criterion x)) \<and>
     score (projr (payout_ratio_criterion x)) \<le> 10"
  by (cases x rule: pyval_cases)
    (auto simp: and_then_if payout_ratio_criterion_def branch_def detail_def fmt_percent1_def)

lemma collect_all_ok:
  "list_all (\<lambda>(k, r). \<not> isl r) crs \<Longrightarrow> collect crs = Inr (map (\<lambda>(k, r). (k, projr r)) crs)"
proof (induction crs)
  case Nil
  show ?case by simp
next
  case (Cons a crs)
  obtain k r where a: "a = (k, r)" by (cases a)
  from Cons.prems a obtain d where r: "r = Inr d" by (cases r) auto
  from Cons show ?case by (simp add: a r)
qed


lemma criteria_ok:
  assumes "well_typed i"
  shows "list_all (\<lambda>(k, r). \<not> isl r) (criteria i)"
  using assms
  by (simp add: well_typed_def read_fields_def criteria_def revenue_bound eps_bound
      positive_billions_bound roe_bound equity_ratio_bound dividend_bound payout_ratio_bound)

lemma criteria_within:
  assumes "well_typed i"
  shows "list_all2 (\<lambda>(k, r) (k', w). k = k' \<and> 0 \<le> score (projr r) \<and> score (projr r) \<le> w)
           (criteria i) criterion_weights"
  using assms
  by (simp add: well_typed_def read_fields_def criteria_def criterion_weights_def revenue_bound
      eps_bound positive_billions_bound roe_bound equity_ratio_bound dividend_bound
      payout_ratio_bound)

lemma score_of_criteria:
  assumes "info d \<noteq> []" and "list_all (\<lambda>(k, r). \<not> isl r) (criteria (info d))"
  shows "calculate_comprehensive_score (Some d) =
           Inr (sum_list (map (\<lambda>(k, r). score (projr r)) (criteria (info d))),
                map (\<lambda>(k, r). (k, Criterion (projr r))) (criteria (info d)))"
  using assms(1)
  by (simp add: calculate_comprehensive_score_def collect_all_ok [OF assms(2)] o_def split_def)

lemma score_result:
  assumes "info d \<noteq> []" and "well_typed (info d)"
  shows "calculate_comprehensive_score (Some d) =
           Inr (sum_list (map (\<lambda>(k, r). score (projr r)) (criteria (info d))),
                map (\<lambda>(k, r). (k, Criterion (projr r))) (criteria (info d)))"
  by (rule score_of_criteria [OF assms(1) criteria_ok [OF assms(2)]])



lemma sum_between:
  "list_all2 (\<lambda>(k, r) (k', w). k = k' \<and> 0 \<le> f r \<and> f r \<le> (w::int)) xs ys \<Longrightarrow>
     0 \<le> sum_list (map (\<lambda>(k, r). f r) xs) \<and>
     sum_list (map (\<lambda>(k, r). f r) xs) \<le> sum_list (map snd ys)"
  by (induction xs ys rule: list_all2_induct) auto



lemma lit_0_40_ge: "4 / 10 \<le> lit_0_40"
  by (simp add: lit_0_40_def)

text \<open>
  Claim C1 says that every non-empty mapping of numeric or null fields gets a total
  between 0 and 100. An integer too large for a float is numeric, and the format of the
  dividend raises \<^verbatim>\<open>OverflowError\<close> on it: the function returns no total.
\<close>

theorem huge_dividend_counterexample:
  "info huge_dividend_data \<noteq> [] \<and>
   get (info huge_dividend_data) ''dividendRate'' = PNum (IntV (10 ^ 309)) \<and>
   calculate_comprehensive_score (Some huge_dividend_data) = Inl OverflowError"
  by (simp add: huge_dividend_data_def with_info_def get_def calculate_comprehensive_score_def
      criteria_def criterion_defs float_overflows_def)

text \<open>
  Claim C1, amended. On every non-empty info mapping whose ten read fields are each
  \<^verbatim>\<open>None\<close>, a float, or an integer within the range of a float (after the factor 100 of
  the three percentage fields), \<^verbatim>\<open>calculate_comprehensive_score\<close> returns a total
  between 0 and 100 that is the sum of the points of the nine breakdown entries, and
  each entry's points lie between 0 and the weight of its criterion
  (15, 15, 10, 10, 10, 10, 10, 10, 10). The other keys of the mapping are free.
\<close>

theorem score_bounded_and_summed:
  assumes "info d \<noteq> []" and "well_typed (info d)"
  shows "\<exists>t bd. calculate_comprehensive_score (Some d) = Inr (t, bd) \<and>
           0 \<le> t \<and> t \<le> 100 \<and> t = sum_list (map points bd) \<and>
           list_all2 within_weight bd criterion_weights"
proof -
  let ?crs = "criteria (info d)"
  let ?t = "sum_list (map (\<lambda>(k, r). score (projr r)) ?crs)"
  let ?bd = "map (\<lambda>(k, r). (k, Criterion (projr r))) ?crs"
  have r: "calculate_comprehensive_score (Some d) = Inr (?t, ?bd)"
    by (rule score_result [OF assms])
  have w: "list_all2 (\<lambda>(k, r) (k', w). k = k' \<and> 0 \<le> score (projr r) \<and> score (projr r) \<le> w)
             ?crs criterion_weights"
    by (rule criteria_within [OF assms(2)])
  from sum_between [OF w] have lo: "0 \<le> ?t" and hi: "?t \<le> 100"
    by (simp_all add: criterion_weights_def)
  have sm: "?t = sum_list (map points ?bd)"
    by (simp add: o_def split_def)
  have ww: "list_all2 within_weight ?bd criterion_weights"
    unfolding list_all2_map1 by (rule list_all2_mono [OF w]) auto
  show ?thesis
    using r lo hi sm ww by (intro exI [of _ ?t] exI [of _ ?bd] conjI)
qed

text \<open>
  The mapping of the specification's full-marks scenario, with a string display name
  beside the ten fields, satisfies the hypotheses.
\<close>

theorem score_bounded_and_summed_witness:
  "\<exists>t bd. calculate_comprehensive_score (Some sample_data) = Inr (t, bd) \<and>
           0 \<le> t \<and> t \<le> 100 \<and> t = sum_list (map points bd) \<and>
           list_all2 within_weight bd criterion_weights"
  using score_bounded_and_summed [of sample_data]
  by (simp add: sample_data_def well_typed_def read_fields_def get_def float_overflows_def)

text \<open>
  Claim C2. When the data is absent or its info mapping is empty, the function returns
  the total 50 with a breakdown that holds the single \<^verbatim>\<open>'note'\<close> entry and no criterion.
\<close>

theorem empty_info_neutral_score:
  "data = None \<or> (\<exists>d. data = Some d \<and> info d = []) \<Longrightarrow>
     calculate_comprehensive_score data = Inr (50, [(''note'', Note note_text)])"
  by (auto simp: calculate_comprehensive_score_def)

theorem empty_info_neutral_score_witness:
  "calculate_comprehensive_score None = Inr (50, [(''note'', Note note_text)])"
  using empty_info_neutral_score [of None] by simp













section \<open>Properties of the fetcher\<close>

lemma attempts_list: "[0..<max_retries] = [0, 1, 2]"
  by (simp add: max_retries_def upt_rec)

text \<open>
  Claim C8. When the provider returns an empty price history on an attempt, the fetch ends
  on that attempt with \<^verbatim>\<open>None\<close> and the not-found message: after the history query the
  trace holds nothing but that message, so no sleep, no backoff and no further query
  follow, whatever attempts were still to run. The only sleep of that attempt is the
  one-second courtesy sleep that precedes the history query. On the first attempt the
  whole fetch is that sleep, one history query and the message.
\<close>

theorem empty_history_not_found:
  assumes "history_reply (p attempt) = Returns []"
  shows "fetch_attempts p code (attempt # rest) =
           (None, [Sleep 1, QueryHistory (code @ ''.T''), StError (NotFound code)]) \<and>
         (attempt = 0 \<longrightarrow>
            fetch_stock_data p code =
              (None, [Sleep 1, QueryHistory (code @ ''.T''), StError (NotFound code)]))"
  using assms unfolding fetch_stock_data_def attempts_list by auto

theorem empty_history_not_found_witness:
  "fetch_stock_data unknown_ticker_provider ''0000'' =
     (None, [Sleep 1, QueryHistory ''0000.T'', StError (NotFound ''0000'')])"
  using empty_history_not_found [of unknown_ticker_provider 0 "''0000''" "[1, 2]"]
  by (simp add: unknown_ticker_provider_def)

text \<open>
  Claim C6 says that an error without the rate-limit signature is retried exactly once,
  two attempts in all. The loop runs \<^verbatim>\<open>max_retries = 3\<close> times and both branches of the
  handler test \<^verbatim>\<open>attempt < max_retries - 1\<close>: a provider that always raises such an error
  is queried three times.
\<close>

theorem transient_error_counterexample:
  "\<not> rate_limited ''Connection reset'' \<and>
   fst (fetch_stock_data failing_provider ''7203'') = None \<and>
   attempts_made (snd (fetch_stock_data failing_provider ''7203'')) = 3"
  unfolding fetch_stock_data_def attempts_list
  by (simp add: rate_limited_def failing_provider_def max_retries_def retry_delay_def
      attempts_made_def)

text \<open>
  Claim C6, amended. An error whose message has no rate-limit signature, raised on an
  attempt that is not the last, is followed by the flat delay \<^verbatim>\<open>retry_delay = 2\<close>,
  whatever the attempt index, and then by the remaining attempts. When every attempt
  raises such an error, the fetch retries twice and returns \<^verbatim>\<open>None\<close> after exactly three
  attempts.
\<close>

theorem transient_errors_three_attempts:
  "(\<forall>attempt rest m.
      history_reply (p attempt) = Raises m \<and> \<not> rate_limited m \<and> attempt < max_retries - 1 \<longrightarrow>
      fetch_attempts p code (attempt # rest) =
        (fst (fetch_attempts p code rest),
         [Sleep 1, QueryHistory (code @ ''.T''), Sleep retry_delay] @
         snd (fetch_attempts p code rest))) \<and>
   ((\<forall>attempt < max_retries. \<exists>m. history_reply (p attempt) = Raises m \<and> \<not> rate_limited m) \<longrightarrow>
      fetch_stock_data p code =
        (None, [Sleep 1, QueryHistory (code @ ''.T''), Sleep retry_delay,
                Sleep 1, QueryHistory (code @ ''.T''), Sleep retry_delay,
                Sleep 1, QueryHistory (code @ ''.T'')]) \<and>
      attempts_made (snd (fetch_stock_data p code)) = 3)"
proof (intro conjI allI impI)
  fix attempt rest m
  assume "history_reply (p attempt) = Raises m \<and> \<not> rate_limited m \<and> attempt < max_retries - 1"
  then show "fetch_attempts p code (attempt # rest) =
        (fst (fetch_attempts p code rest),
         [Sleep 1, QueryHistory (code @ ''.T''), Sleep retry_delay] @
         snd (fetch_attempts p code rest))"
    by (simp add: split_def Let_def)
next
  assume a: "\<forall>attempt < max_retries. \<exists>m. history_reply (p attempt) = Raises m \<and> \<not> rate_limited m"
  from a have "\<exists>m. history_reply (p 0) = Raises m \<and> \<not> rate_limited m"
    by (simp add: max_retries_def)
  then obtain m0 where 0: "history_reply (p 0) = Raises m0" "\<not> rate_limited m0" by blast
  from a have "\<exists>m. history_reply (p (Suc 0)) = Raises m \<and> \<not> rate_limited m"
    by (simp add: max_retries_def)
  then obtain m1 where 1: "history_reply (p (Suc 0)) = Raises m1" "\<not> rate_limited m1"
    by blast
  from a have "\<exists>m. history_reply (p 2) = Raises m \<and> \<not> rate_limited m"
    by (simp add: max_retries_def)
  then obtain m2 where 2: "history_reply (p 2) = Raises m2" "\<not> rate_limited m2" by blast
  have r: "fetch_stock_data p code =
        (None, [Sleep 1, QueryHistory (code @ ''.T''), Sleep retry_delay,
                Sleep 1, QueryHistory (code @ ''.T''), Sleep retry_delay,
                Sleep 1, QueryHistory (code @ ''.T'')])"
    unfolding fetch_stock_data_def attempts_list by (simp add: 0 1 2 max_retries_def)
  show "fetch_stock_data p code =
        (None, [Sleep 1, QueryHistory (code @ ''.T''), Sleep retry_delay,
                Sleep 1, QueryHistory (code @ ''.T''), Sleep retry_delay,
                Sleep 1, QueryHistory (code @ ''.T'')])"
    by (rule r)
  show "attempts_made (snd (fetch_stock_data p code)) = 3"
    unfolding r by (simp add: attempts_made_def)
qed

theorem transient_errors_three_attempts_witness:
  "fetch_stock_data failing_provider ''7203'' =
     (None, [Sleep 1, QueryHistory ''7203.T'', Sleep 2,
             Sleep 1, QueryHistory ''7203.T'', Sleep 2,
             Sleep 1, QueryHistory ''7203.T''])"
proof -
  have a: "\<forall>attempt < max_retries.
             \<exists>m. history_reply (failing_provider attempt) = Raises m \<and> \<not> rate_limited m"
    by (simp add: failing_provider_def rate_limited_def)
  from mp [OF conjunct2 [OF transient_errors_three_attempts [of failing_provider "''7203''"]] a]
  show ?thesis by (simp add: retry_delay_def)
qed

section \<open>Properties of the history store\<close>

lemma length_last_100: "length (last_100 xs) \<le> 100"
  by (simp add: last_100_def)

lemma last_100_append: "last_100 (last_100 xs @ ys) = last_100 (xs @ ys)"
  by (cases "length xs \<le> 100") (simp_all add: last_100_def add.commute)

lemma entry_rebuilt [simp]:
  "\<lparr>stock_code = stock_code e, entry_company_name = entry_company_name e,
    entry_score = entry_score e, entry_score_details = entry_score_details e,
    date = date e\<rparr> = (e::entry)"
  by (cases e) simp

lemma load_history_update [simp]:
  "load_history (update_monthly_ranking m e fs) = load_history fs"
  by (simp add: update_monthly_ranking_def load_history_def Let_def)

lemma load_history_save_at: "load_history (save_at me fs) = last_100 (load_history fs @ [snd me])"
  by (simp add: save_at_def save_history_def Let_def) (simp add: load_history_def)

lemma load_history_save_all:
  "mes \<noteq> [] \<Longrightarrow> load_history (save_all mes fs) = last_100 (load_history fs @ map snd mes)"
proof (induction mes arbitrary: fs)
  case Nil
  then show ?case by simp
next
  case (Cons me mes)
  show ?case
  proof (cases "mes = []")
    case True
    then show ?thesis by (simp add: save_all_def load_history_save_at)
  next
    case False
    have "load_history (save_all (me # mes) fs) = load_history (save_all mes (save_at me fs))"
      by (simp add: save_all_def)
    also have "\<dots> = last_100 (load_history (save_at me fs) @ map snd mes)"
      by (rule Cons.IH [OF False])
    also have "\<dots> = last_100 ((load_history fs @ [snd me]) @ map snd mes)"
      by (simp only: load_history_save_at last_100_append)
    finally show ?thesis by simp
  qed
qed

text \<open>
  Claim C3. Whatever the persisted history log holds, after one append, and after the last
  of any sequence of appends, it has at most 100 entries; and 105 appends to an empty or
  absent log leave exactly the last 100 records, in the order they were appended.
\<close>

theorem history_capped_fifo:
  "length (load_history (save_at me fs)) \<le> 100 \<and>
   length (load_history (save_all (mes @ [me]) fs)) \<le> 100 \<and>
   (load_history fs = [] \<and> length mes = 105 \<longrightarrow>
      load_history (save_all mes fs) = drop 5 (map snd mes))"
proof (intro conjI impI)
  show "length (load_history (save_at me fs)) \<le> 100"
    by (simp add: load_history_save_at length_last_100)
  show "length (load_history (save_all (mes @ [me]) fs)) \<le> 100"
    by (simp add: load_history_save_all length_last_100)
next
  assume h: "load_history fs = [] \<and> length mes = 105"
  then have "mes \<noteq> []" by auto
  from load_history_save_all [OF this] h
  show "load_history (save_all mes fs) = drop 5 (map snd mes)"
    by (simp add: last_100_def)
qed

theorem history_capped_fifo_witness:
  "load_history no_files = [] \<and> length hundred_and_five = 105 \<and>
   load_history (save_all hundred_and_five no_files) = map (\<lambda>n. snd (numbered n)) [5..<105]"
proof -
  have l: "length hundred_and_five = 105" by (simp add: hundred_and_five_def)
  have e: "load_history no_files = []" by (simp add: load_history_def no_files_def)
  from history_capped_fifo [of "numbered 0" no_files hundred_and_five] l e
  have "load_history (save_all hundred_and_five no_files) = drop 5 (map snd hundred_and_five)"
    by blast
  also have "\<dots> = map (\<lambda>n. snd (numbered n)) [5..<105]"
    by (simp add: hundred_and_five_def drop_map o_def del: upt_rec_numeral)
  finally show ?thesis using l e by blast
qed

section \<open>Properties of the monthly ranking\<close>

lemma load_monthly_ranking_bucket: "load_monthly_ranking m fs = bucket (load_rankings fs) m"
  by (simp add: load_monthly_ranking_def load_rankings_def bucket_def split: option.splits)

lemma load_rankings_update:
  "load_rankings (update_monthly_ranking m e fs) =
     (load_rankings fs)(m \<mapsto>
        sort_by_score_desc
          (filter (\<lambda>r. stock_code r \<noteq> stock_code e) (bucket (load_rankings fs) m) @ [e]))"
proof (cases "load_rankings fs m")
  case None
  then have d: "m \<notin> dom (load_rankings fs)" by (simp add: domIff)
  have r: "load_rankings (fs\<lparr>ranking_file := Some x\<rparr>) = x" for x
    by (simp add: load_rankings_def)
  show ?thesis
    unfolding update_monthly_ranking_def Let_def r using d None by (simp add: bucket_def)
next
  case (Some b)
  then have d: "m \<in> dom (load_rankings fs)" by (simp add: domIff)
  have r: "load_rankings (fs\<lparr>ranking_file := Some x\<rparr>) = x" for x
    by (simp add: load_rankings_def)
  show ?thesis
    unfolding update_monthly_ranking_def Let_def r using d Some by (simp add: bucket_def)
qed

lemma bucket_update_same:
  "load_monthly_ranking m (update_monthly_ranking m e fs) =
     sort_by_score_desc
       (filter (\<lambda>r. stock_code r \<noteq> stock_code e) (load_monthly_ranking m fs) @ [e])"
  by (simp add: load_monthly_ranking_bucket load_rankings_update) (simp add: bucket_def)

lemma bucket_update_other:
  "m' \<noteq> m \<Longrightarrow>
     load_monthly_ranking m' (update_monthly_ranking m e fs) = load_monthly_ranking m' fs"
  by (simp add: load_monthly_ranking_bucket load_rankings_update) (simp add: bucket_def)

lemma load_monthly_ranking_history [simp]:
  "load_monthly_ranking m (fs\<lparr>history_file := h\<rparr>) = load_monthly_ranking m fs"
  by (simp add: load_monthly_ranking_def)

lemma bucket_save_at_same:
  "load_monthly_ranking m (save_at (m, e) fs) =
     sort_by_score_desc
       (filter (\<lambda>r. stock_code r \<noteq> stock_code e) (load_monthly_ranking m fs) @ [e])"
  by (simp add: save_at_def save_history_def Let_def bucket_update_same)

lemma bucket_save_at_other:
  "m' \<noteq> m \<Longrightarrow> load_monthly_ranking m' (save_at (m, e) fs) = load_monthly_ranking m' fs"
  by (simp add: save_at_def save_history_def Let_def bucket_update_other)

lemma distinct_tickers_sorted:
  "distinct (map stock_code (sort_by_score_desc es)) = distinct (map stock_code es)"
  by (simp add: sort_by_score_desc_def distinct_map)

lemma distinct_tickers_replaced:
  assumes "distinct (map stock_code es)"
  shows "distinct (map stock_code (filter (\<lambda>r. stock_code r \<noteq> stock_code e) es @ [e]))"
  using assms by (auto simp: distinct_map_filter)

lemma distinct_after_update:
  assumes "distinct (map stock_code (load_monthly_ranking m fs))"
  shows "distinct (map stock_code (load_monthly_ranking m (update_monthly_ranking m e fs)))"
  unfolding bucket_update_same distinct_tickers_sorted
  by (rule distinct_tickers_replaced [OF assms])

lemma distinct_after_save_at:
  assumes "\<forall>m. distinct (map stock_code (load_monthly_ranking m fs))"
  shows "distinct (map stock_code (load_monthly_ranking m' (save_at me fs)))"
proof -
  obtain m e where me: "me = (m, e)" by (cases me)
  show ?thesis
  proof (cases "m' = m")
    case True
    from assms have "distinct (map stock_code (load_monthly_ranking m fs))" by blast
    then show ?thesis
      unfolding me True bucket_save_at_same distinct_tickers_sorted
      by (rule distinct_tickers_replaced)
  next
    case False
    with assms show ?thesis by (simp add: me bucket_save_at_other)
  qed
qed

lemma distinct_after_save_all:
  "\<forall>m. distinct (map stock_code (load_monthly_ranking m fs)) \<Longrightarrow>
   \<forall>m. distinct (map stock_code (load_monthly_ranking m (save_all mes fs)))"
proof (induction mes arbitrary: fs)
  case Nil
  then show ?case by (simp add: save_all_def)
next
  case (Cons me mes)
  have "\<forall>m. distinct (map stock_code (load_monthly_ranking m (save_at me fs)))"
    using distinct_after_save_at [OF Cons.prems] by blast
  from Cons.IH [OF this] show ?case by (simp add: save_all_def)
qed

lemma sorted_after_update:
  "sorted_wrt (\<lambda>x y. entry_score y \<le> entry_score x) (sort_by_score_desc es)"
proof -
  have "sorted (map (\<lambda>x. - entry_score x) (sort_by_score_desc es))"
    by (simp add: sort_by_score_desc_def)
  then show ?thesis by (simp add: sorted_map)
qed

lemma stable_after_update:
  "filter (\<lambda>r. entry_score r = k) (sort_by_score_desc es) = filter (\<lambda>r. entry_score r = k) es"
proof -
  have "filter (\<lambda>r. - entry_score r = - k) (sort_key (\<lambda>x. - entry_score x) es) =
        filter (\<lambda>r. - entry_score r = - k) es"
    by (rule sort_key_stable)
  then show ?thesis by (simp add: sort_by_score_desc_def)
qed

lemma ticker_after_update:
  "filter (\<lambda>r. stock_code r = stock_code e)
     (sort_by_score_desc (filter (\<lambda>r. stock_code r \<noteq> stock_code e) es @ [e])) = [e]"
proof -
  have "filter (\<lambda>r. stock_code r = stock_code e)
          (sort_key (\<lambda>x. - entry_score x) (filter (\<lambda>r. stock_code r \<noteq> stock_code e) es @ [e])) =
        sort_key (\<lambda>x. - entry_score x)
          (filter (\<lambda>r. stock_code r = stock_code e)
             (filter (\<lambda>r. stock_code r \<noteq> stock_code e) es @ [e]))"
    by (rule filter_sort)
  also have "filter (\<lambda>r. stock_code r = stock_code e)
               (filter (\<lambda>r. stock_code r \<noteq> stock_code e) es @ [e]) = [e]"
    by (induction es) auto
  finally show ?thesis by (simp add: sort_by_score_desc_def)
qed

text \<open>
  Claim C4. In every run of the application, started from stores that do not exist yet,
  the updated month's sequence holds no two records of one ticker after a ranking update,
  and so does every other month. After a ranking update on any persisted mapping, the
  month's sequence is sorted by score, highest first; it holds the new entry as the only
  record of its ticker; and among records of equal score the order is that of the
  sequence before the sort: the records kept from the bucket in their old order, the new
  entry last. An update also keeps the tickers distinct in any bucket where they were.
\<close>

theorem ranking_bucket_after_update:
  "distinct (map stock_code
     (load_monthly_ranking m (update_monthly_ranking m e (save_all mes no_files)))) \<and>
   (distinct (map stock_code (load_monthly_ranking m fs)) \<longrightarrow>
      distinct (map stock_code (load_monthly_ranking m (update_monthly_ranking m e fs)))) \<and>
   sorted_wrt (\<lambda>x y. entry_score y \<le> entry_score x)
     (load_monthly_ranking m (update_monthly_ranking m e fs)) \<and>
   filter (\<lambda>r. stock_code r = stock_code e)
     (load_monthly_ranking m (update_monthly_ranking m e fs)) = [e] \<and>
   (\<forall>k. filter (\<lambda>r. entry_score r = k) (load_monthly_ranking m (update_monthly_ranking m e fs)) =
        filter (\<lambda>r. entry_score r = k)
          (filter (\<lambda>r. stock_code r \<noteq> stock_code e) (load_monthly_ranking m fs) @ [e])) \<and>
   (\<forall>m'. distinct (map stock_code (load_monthly_ranking m' (save_all mes no_files))))"
proof (intro conjI impI allI)
  have "\<forall>m. distinct (map stock_code (load_monthly_ranking m no_files))"
    by (simp add: load_monthly_ranking_def no_files_def)
  from distinct_after_save_all [OF this]
  have "distinct (map stock_code (load_monthly_ranking m (save_all mes no_files)))" by blast
  then show "distinct (map stock_code
      (load_monthly_ranking m (update_monthly_ranking m e (save_all mes no_files))))"
    by (rule distinct_after_update)
next
  assume "distinct (map stock_code (load_monthly_ranking m fs))"
  then show "distinct (map stock_code (load_monthly_ranking m (update_monthly_ranking m e fs)))"
    by (rule distinct_after_update)
next
  show "sorted_wrt (\<lambda>x y. entry_score y \<le> entry_score x)
          (load_monthly_ranking m (update_monthly_ranking m e fs))"
    unfolding bucket_update_same by (rule sorted_after_update)
next
  show "filter (\<lambda>r. stock_code r = stock_code e)
          (load_monthly_ranking m (update_monthly_ranking m e fs)) = [e]"
    unfolding bucket_update_same by (rule ticker_after_update)
next
  fix k
  show "filter (\<lambda>r. entry_score r = k) (load_monthly_ranking m (update_monthly_ranking m e fs)) =
        filter (\<lambda>r. entry_score r = k)
          (filter (\<lambda>r. stock_code r \<noteq> stock_code e) (load_monthly_ranking m fs) @ [e])"
    unfolding bucket_update_same by (rule stable_after_update)
next
  fix m'
  have "\<forall>m. distinct (map stock_code (load_monthly_ranking m no_files))"
    by (simp add: load_monthly_ranking_def no_files_def)
  from distinct_after_save_all [OF this]
  show "distinct (map stock_code (load_monthly_ranking m' (save_all mes no_files)))" by blast
qed

text \<open>
  Re-analysing ticker 7203 in one month, first with score 40 and then with score 70,
  leaves a single record of it.
\<close>

theorem ranking_bucket_after_update_witness:
  "distinct (map stock_code (load_monthly_ranking ''2025-01''
     (update_monthly_ranking ''2025-01'' (mk_entry ''7203'' 70)
        (update_monthly_ranking ''2025-01'' (mk_entry ''7203'' 40) no_files)))) \<and>
   filter (\<lambda>r. stock_code r = ''7203'') (load_monthly_ranking ''2025-01''
     (update_monthly_ranking ''2025-01'' (mk_entry ''7203'' 70)
        (update_monthly_ranking ''2025-01'' (mk_entry ''7203'' 40) no_files))) =
     [mk_entry ''7203'' 70]"
proof -
  let ?fs1 = "update_monthly_ranking ''2025-01'' (mk_entry ''7203'' 40) no_files"
  let ?b = "load_monthly_ranking ''2025-01''
              (update_monthly_ranking ''2025-01'' (mk_entry ''7203'' 70) ?fs1)"
  have d0: "distinct (map stock_code (load_monthly_ranking ''2025-01'' no_files))"
    by (simp add: load_monthly_ranking_def no_files_def)
  note t0 = ranking_bucket_after_update [of "''2025-01''" "mk_entry ''7203'' 40" "[]" no_files]
  have d1: "distinct (map stock_code (load_monthly_ranking ''2025-01'' ?fs1))"
    by (rule mp [OF conjunct1 [OF conjunct2 [OF t0]] d0])
  note t1 = ranking_bucket_after_update [of "''2025-01''" "mk_entry ''7203'' 70" "[]" ?fs1]
  have d2: "distinct (map stock_code ?b)"
    by (rule mp [OF conjunct1 [OF conjunct2 [OF t1]] d1])
  have f2: "filter (\<lambda>r. stock_code r = stock_code (mk_entry ''7203'' 70)) ?b =
              [mk_entry ''7203'' 70]"
    by (rule conjunct1 [OF conjunct2 [OF conjunct2 [OF conjunct2 [OF t1]]]])
  have c: "stock_code (mk_entry ''7203'' 70) = ''7203''" by (simp add: mk_entry_def)
  from d2 f2 show ?thesis unfolding c by (rule conjI)
qed

text \<open>
  Claim C10. Whatever ranking mapping is persisted, \<^verbatim>\<open>update_monthly_ranking\<close> leaves
  every month other than the current one mapped to the sequence it had, and removes no
  month from the mapping.
\<close>

theorem ranking_update_frame:
  "(\<forall>m'. m' \<noteq> m \<longrightarrow>
      load_rankings (update_monthly_ranking m e fs) m' = load_rankings fs m') \<and>
   dom (load_rankings fs) \<subseteq> dom (load_rankings (update_monthly_ranking m e fs))"
proof (intro conjI allI impI subsetI)
  fix m'
  assume "m' \<noteq> m"
  then show "load_rankings (update_monthly_ranking m e fs) m' = load_rankings fs m'"
    by (simp add: load_rankings_update)
next
  fix m'
  assume "m' \<in> dom (load_rankings fs)"
  then show "m' \<in> dom (load_rankings (update_monthly_ranking m e fs))"
    by (simp add: load_rankings_update domIff)
qed

theorem ranking_update_frame_witness:
  "load_rankings (update_monthly_ranking ''2025-01'' (mk_entry ''7203'' 70) december_files)
     ''2024-12'' = Some [mk_entry ''6758'' 55] \<and>
   ''2024-12'' \<in> dom (load_rankings
     (update_monthly_ranking ''2025-01'' (mk_entry ''7203'' 70) december_files))"
proof -
  note t = ranking_update_frame [of "''2025-01''" "mk_entry ''7203'' 70" december_files]
  have ne: "''2024-12'' \<noteq> ''2025-01''" by simp
  have same:
    "load_rankings (update_monthly_ranking ''2025-01'' (mk_entry ''7203'' 70) december_files)
       ''2024-12'' = load_rankings december_files ''2024-12''"
    by (rule mp [OF spec [OF conjunct1 [OF t]] ne])
  have before: "load_rankings december_files ''2024-12'' = Some [mk_entry ''6758'' 55]"
    by (simp add: load_rankings_def december_files_def)
  have after:
    "load_rankings (update_monthly_ranking ''2025-01'' (mk_entry ''7203'' 70) december_files)
       ''2024-12'' = Some [mk_entry ''6758'' 55]"
    by (rule trans [OF same before])
  then have "''2024-12'' \<in> dom (load_rankings
       (update_monthly_ranking ''2025-01'' (mk_entry ''7203'' 70) december_files))"
    by (rule domI)
  with after show ?thesis by (rule conjI)
qed

end
